theory Spec2Isabelle
  imports Main "HOL-Library.AList"
begin

section \<open>JavaScript numbers: IEEE 754 binary64 with exact integer arithmetic\<close>

text \<open>
  A Number of the route handlers is a binary64 value.  A finite one is kept as sign,
  significand and binary exponent, \<open>Fin neg m e\<close> standing for \<open>(-1)^neg * m * 2^e\<close>, in the
  format's own normal form: \<open>m < 2^53\<close>, \<open>-1074 \<le> e \<le> 971\<close>, and \<open>2^52 \<le> m\<close> unless \<open>e = -1074\<close>
  (subnormals and the two zeros \<open>Fin neg 0 (-1074)\<close>).  Every operation below produces its
  result through \<open>round_double\<close>, round-to-nearest with ties to even, so no rounding error
  is idealised away.
\<close>

datatype jsnum = NaN | Inf bool | Fin bool int int

function bit_length :: "int \<Rightarrow> int" where
  "bit_length n = (if n \<le> 0 then 0 else 1 + bit_length (n div 2))"
  by pat_completeness auto
termination
  by (relation "measure nat") auto

declare bit_length.simps [simp del]

function dec_length :: "int \<Rightarrow> int" where
  "dec_length n = (if n < 10 then 1 else 1 + dec_length (n div 10))"
  by pat_completeness auto
termination
  by (relation "measure nat") auto

declare dec_length.simps [simp del]

text \<open>
  \<open>floor (log2 (p / q))\<close> and \<open>floor (log10 (p / q))\<close> for positive \<open>p\<close>, \<open>q\<close>: the
  difference \<open>k\<close> of the two lengths, or \<open>k - 1\<close>.
\<close>

definition ilog2_ratio :: "int \<Rightarrow> int \<Rightarrow> int" where
  "ilog2_ratio p q =
     (let k = bit_length p - bit_length q
      in if (if 0 \<le> k then q * 2 ^ nat k \<le> p else q \<le> p * 2 ^ nat (- k)) then k else k - 1)"

definition ilog10_ratio :: "int \<Rightarrow> int \<Rightarrow> int" where
  "ilog10_ratio p q =
     (let k = dec_length p - dec_length q
      in if (if 0 \<le> k then q * 10 ^ nat k \<le> p else q \<le> p * 10 ^ nat (- k)) then k else k - 1)"

text \<open>The fraction \<open>(p / q) / b^e\<close> as numerator and denominator.\<close>

definition scale_ratio :: "int \<Rightarrow> int \<Rightarrow> int \<Rightarrow> int \<Rightarrow> int \<times> int" where
  "scale_ratio b p q e = (if 0 \<le> e then (p, q * b ^ nat e) else (p * b ^ nat (- e), q))"

definition round_half_even :: "int \<Rightarrow> int \<Rightarrow> int" where
  "round_half_even n d =
     (let m = n div d; r = n mod d
      in if 2 * r < d then m else if d < 2 * r then m + 1 else if even m then m else m + 1)"

text \<open>The binary64 value nearest to \<open>(-1)^neg * p / q\<close> (for \<open>q > 0\<close>).\<close>

definition round_double :: "bool \<Rightarrow> int \<Rightarrow> int \<Rightarrow> jsnum" where
  "round_double neg p q =
     (if p = 0 then Fin neg 0 (- 1074)
      else
        let e = max (ilog2_ratio p q - 52) (- 1074);
            (n, d) = scale_ratio 2 p q e;
            m = round_half_even n d
        in if m = 2 ^ 53 then (if 971 < e + 1 then Inf neg else Fin neg (2 ^ 52) (e + 1))
           else if 971 < e then Inf neg
           else Fin neg m e)"

text \<open>Number::multiply.\<close>

fun js_mul :: "jsnum \<Rightarrow> jsnum \<Rightarrow> jsnum" where
  "js_mul NaN _ = NaN"
| "js_mul _ NaN = NaN"
| "js_mul (Inf s) (Inf t) = Inf (s \<noteq> t)"
| "js_mul (Inf s) (Fin t n f) = (if n = 0 then NaN else Inf (s \<noteq> t))"
| "js_mul (Fin s m e) (Inf t) = (if m = 0 then NaN else Inf (s \<noteq> t))"
| "js_mul (Fin s m e) (Fin t n f) =
     (let (p, q) = scale_ratio 2 (m * n) 1 (- (e + f)) in round_double (s \<noteq> t) p q)"

text \<open>\<open>isNaN\<close> on a Number, and strict equality \<open>===\<close> of two Numbers.\<close>

definition isNaN :: "jsnum \<Rightarrow> bool" where
  "isNaN x = (x = NaN)"

fun is_zero :: "jsnum \<Rightarrow> bool" where
  "is_zero (Fin _ m _) = (m = 0)"
| "is_zero _ = False"

definition num_strict_eq :: "jsnum \<Rightarrow> jsnum \<Rightarrow> bool" where
  "num_strict_eq x y =
     (if x = NaN \<or> y = NaN then False
      else if is_zero x \<and> is_zero y then True
      else x = y)"

section \<open>Strings and numbers\<close>

text \<open>
  A string is the list of its code units; only code units below 256 are represented, which
  covers every character that the numeric grammar and the messages of the routes use.
\<close>

definition digit_char :: "int \<Rightarrow> char" where
  "digit_char d = ''0123456789'' ! nat d"

function int_digits :: "int \<Rightarrow> string" where
  "int_digits n = (if n < 10 then [digit_char n] else int_digits (n div 10) @ [digit_char (n mod 10)])"
  by pat_completeness auto
termination
  by (relation "measure nat") auto

declare int_digits.simps [simp del]

definition is_digit :: "char \<Rightarrow> bool" where
  "is_digit c = (c \<in> set ''0123456789'')"

definition digit_val :: "char \<Rightarrow> int" where
  "digit_val c = of_char c - 48"

definition digits_val :: "string \<Rightarrow> int" where
  "digits_val ds = foldl (\<lambda>a c. 10 * a + digit_val c) 0 ds"

subsection \<open>Number::toString, radix 10\<close>

text \<open>
  ECMA-262 asks for integers \<open>n\<close>, \<open>k\<close>, \<open>s\<close> with \<open>10^(k-1) \<le> s < 10^k\<close>, such that
  \<open>s * 10^(n-k)\<close> rounds to the number and \<open>k\<close> is as small as possible; among several \<open>s\<close> the
  one nearest to the number.  \<open>candidate\<close> tries the two \<open>k\<close>-digit decimals around the value
  \<open>m * 2^e\<close> in its own decade \<open>n0\<close>; \<open>shortest_digits\<close> searches \<open>k = 1, 2, ...\<close> and
  stops at 17 digits, which always identify a binary64 value.
\<close>

definition rounds_to :: "int \<Rightarrow> int \<Rightarrow> int \<Rightarrow> int \<Rightarrow> bool" where
  "rounds_to s ex m e = (let (sp, sq) = scale_ratio 10 s 1 (- ex) in round_double False sp sq = Fin False m e)"

definition candidate :: "int \<Rightarrow> int \<Rightarrow> int \<Rightarrow> int \<Rightarrow> (int \<times> int) option" where
  "candidate m e n0 k =
     (let (xp, xq) = scale_ratio 2 m 1 (- e);
          (a, b) = scale_ratio 10 xp xq (n0 - k);
          lo = a div b; r = a mod b; hi = lo + 1;
          lo_ok = rounds_to lo (n0 - k) m e;
          hi_ok = rounds_to hi (n0 - k) m e
      in if lo_ok \<and> (\<not> hi_ok \<or> 2 * r < b \<or> (2 * r = b \<and> even lo)) then Some (lo, n0)
         else if hi_ok then Some (if hi = 10 ^ nat k then (10 ^ nat (k - 1), n0 + 1) else (hi, n0))
         else None)"

definition nearest_digits :: "int \<Rightarrow> int \<Rightarrow> int \<Rightarrow> int \<Rightarrow> int \<times> int" where
  "nearest_digits m e n0 k =
     (let (xp, xq) = scale_ratio 2 m 1 (- e);
          (a, b) = scale_ratio 10 xp xq (n0 - k);
          s = round_half_even a b
      in if s = 10 ^ nat k then (10 ^ nat (k - 1), n0 + 1) else (s, n0))"

function shortest_digits :: "int \<Rightarrow> int \<Rightarrow> int \<Rightarrow> int \<Rightarrow> int \<times> int \<times> int" where
  "shortest_digits m e n0 k =
     (if 17 \<le> k then (let (s, n) = nearest_digits m e n0 k in (s, k, n))
      else case candidate m e n0 k of
             Some (s, n) \<Rightarrow> (s, k, n)
           | None \<Rightarrow> shortest_digits m e n0 (k + 1))"
  by pat_completeness auto
termination
  by (relation "measure (\<lambda>(m, e, n0, k). nat (17 - k))") auto

declare shortest_digits.simps [simp del]

definition format_number :: "int \<Rightarrow> int \<Rightarrow> int \<Rightarrow> string" where
  "format_number s k n =
     (let ds = int_digits s
      in if k \<le> n \<and> n \<le> 21 then ds @ replicate (nat (n - k)) CHR ''0''
         else if 0 < n \<and> n \<le> 21 then take (nat n) ds @ ''.'' @ drop (nat n) ds
         else if - 6 < n \<and> n \<le> 0 then ''0.'' @ replicate (nat (- n)) CHR ''0'' @ ds
         else
           let ex = (if 0 \<le> n - 1 then ''+'' else ''-'') @ int_digits (abs (n - 1))
           in if k = 1 then ds @ ''e'' @ ex else take 1 ds @ ''.'' @ drop 1 ds @ ''e'' @ ex)"

definition number_to_string :: "jsnum \<Rightarrow> string" where
  "number_to_string x =
     (case x of
        NaN \<Rightarrow> ''NaN''
      | Inf neg \<Rightarrow> (if neg then ''-Infinity'' else ''Infinity'')
      | Fin neg m e \<Rightarrow>
          if m = 0 then ''0''
          else
            let (xp, xq) = scale_ratio 2 m 1 (- e);
                (s, k, n) = shortest_digits m e (ilog10_ratio xp xq + 1) 1
            in (if neg then ''-'' else []) @ format_number s k n)"

subsection \<open>Number.prototype.toFixed\<close>

text \<open>
  \<open>toFixed f x\<close> is \<open>x.toFixed(f)\<close> for \<open>0 \<le> f \<le> 100\<close>: a number that is not finite or is at
  least \<open>10^21\<close> in magnitude is printed by Number::toString; otherwise \<open>n\<close> is the integer
  nearest to the exact value \<open>|x| * 10^f\<close> (the larger one of two), printed with \<open>f\<close> digits
  after the point.
\<close>

definition toFixed :: "nat \<Rightarrow> jsnum \<Rightarrow> string" where
  "toFixed f x =
     (case x of
        NaN \<Rightarrow> ''NaN''
      | Inf neg \<Rightarrow> (if neg then ''-Infinity'' else ''Infinity'')
      | Fin neg m e \<Rightarrow>
          let sgn = (if neg \<and> m \<noteq> 0 then ''-'' else []);
              (xp, xq) = scale_ratio 2 m 1 (- e)
          in if 10 ^ 21 * xq \<le> xp then sgn @ number_to_string (Fin False m e)
             else
               let n = (2 * xp * 10 ^ f + xq) div (2 * xq);
                   ds = int_digits n;
                   ds' = (if f \<noteq> 0 then replicate (f + 1 - length ds) CHR ''0'' @ ds else ds)
               in if f \<noteq> 0
                  then sgn @ take (length ds' - f) ds' @ ''.'' @ drop (length ds' - f) ds'
                  else sgn @ ds')"

subsection \<open>parseFloat on a string\<close>

text \<open>
  The argument's leading white space is dropped, the longest prefix that is a
  StrDecimalLiteral is taken (an optional sign, then \<open>Infinity\<close>, or digits with an optional
  fraction and an optional exponent), and its exact decimal value is rounded to binary64.
  A string with no such prefix gives NaN.
\<close>

definition is_ws :: "char \<Rightarrow> bool" where
  "is_ws c = (of_char c \<in> {9, 10, 11, 12, 13, 32, 160 :: int})"

definition decimal_to_double :: "bool \<Rightarrow> int \<Rightarrow> int \<Rightarrow> jsnum" where
  "decimal_to_double neg n ex = (let (p, q) = scale_ratio 10 n 1 (- ex) in round_double neg p q)"

definition parse_exponent :: "string \<Rightarrow> int" where
  "parse_exponent r =
     (if r \<noteq> [] \<and> (hd r = CHR ''e'' \<or> hd r = CHR ''E'') then
        let t = tl r;
            neg = (t \<noteq> [] \<and> hd t = CHR ''-'');
            t' = (if t \<noteq> [] \<and> (hd t = CHR ''-'' \<or> hd t = CHR ''+'') then tl t else t);
            ds = takeWhile is_digit t'
        in if ds = [] then 0 else if neg then - digits_val ds else digits_val ds
      else 0)"

definition parse_float :: "string \<Rightarrow> jsnum" where
  "parse_float str =
     (let s = dropWhile is_ws str;
          neg = (s \<noteq> [] \<and> hd s = CHR ''-'');
          s1 = (if s \<noteq> [] \<and> (hd s = CHR ''-'' \<or> hd s = CHR ''+'') then tl s else s)
      in if take 8 s1 = ''Infinity'' then Inf neg
         else
           let ds1 = takeWhile is_digit s1;
               r1 = dropWhile is_digit s1;
               dot = (r1 \<noteq> [] \<and> hd r1 = CHR ''.'');
               ds2 = (if dot then takeWhile is_digit (tl r1) else []);
               r2 = (if dot then dropWhile is_digit (tl r1) else r1)
           in if ds1 = [] \<and> ds2 = [] then NaN
              else decimal_to_double neg (digits_val (ds1 @ ds2)) (parse_exponent r2 - int (length ds2)))"

section \<open>Values of a request body\<close>

text \<open>
  A request body is what \<open>JSON.parse\<close> builds: \<open>null\<close>, booleans, Numbers, strings, arrays
  and plain objects (an association list of own properties); \<open>Undefined\<close> is what reading an
  absent property gives.
\<close>

datatype jsval =
    Undefined
  | Null
  | Bool bool
  | Num jsnum
  | Str string
  | Arr "jsval list"
  | Obj "(string \<times> jsval) list"

type_synonym obj = "(string \<times> jsval) list"

datatype js_error = TypeError | StorageError

text \<open>Property access \<open>o.k\<close> on a plain object.\<close>

definition fld :: "obj \<Rightarrow> string \<Rightarrow> jsval" where
  "fld ob k = (case map_of ob k of None \<Rightarrow> Undefined | Some v \<Rightarrow> v)"

text \<open>ToBoolean: what \<open>!v\<close>, \<open>v || w\<close>, \<open>v && w\<close> and \<open>if (v)\<close> test.\<close>

fun truthy :: "jsval \<Rightarrow> bool" where
  "truthy Undefined = False"
| "truthy Null = False"
| "truthy (Bool b) = b"
| "truthy (Num n) = (n \<noteq> NaN \<and> \<not> is_zero n)"
| "truthy (Str s) = (s \<noteq> [])"
| "truthy (Arr xs) = True"
| "truthy (Obj kvs) = True"

definition js_or :: "jsval \<Rightarrow> jsval \<Rightarrow> jsval" where
  "js_or v w = (if truthy v then v else w)"

text \<open>
  ToString.  An array is joined with commas, \<open>undefined\<close> and \<open>null\<close> elements printing as
  the empty string.  A plain object prints as \<open>[object Object]\<close> through
  \<open>Object.prototype.toString\<close>, unless it has an own property \<open>toString\<close>: a value built by
  \<open>JSON.parse\<close> is never callable, \<open>Object.prototype.valueOf\<close> returns the object itself, and
  OrdinaryToPrimitive throws a TypeError.
\<close>

fun to_string :: "jsval \<Rightarrow> js_error + string"
  and join_strings :: "jsval list \<Rightarrow> js_error + string" where
  "to_string Undefined = Inr ''undefined''"
| "to_string Null = Inr ''null''"
| "to_string (Bool b) = Inr (if b then ''true'' else ''false'')"
| "to_string (Num n) = Inr (number_to_string n)"
| "to_string (Str s) = Inr s"
| "to_string (Arr xs) = join_strings xs"
| "to_string (Obj kvs) =
     (if ''toString'' \<in> fst ` set kvs then Inl TypeError else Inr ''[object Object]'')"
| "join_strings [] = Inr []"
| "join_strings (x # xs) =
     (case (if x = Undefined \<or> x = Null then Inr [] else to_string x) of
        Inl err \<Rightarrow> Inl err
      | Inr a \<Rightarrow>
          if xs = [] then Inr a
          else (case join_strings xs of Inl err \<Rightarrow> Inl err | Inr b \<Rightarrow> Inr (a @ '','' @ b)))"

text \<open>The global \<open>parseFloat\<close>: ToString of the argument, then the parse of the string.\<close>

definition parseFloat :: "jsval \<Rightarrow> js_error + jsnum" where
  "parseFloat v = (case to_string v of Inl err \<Rightarrow> Inl err | Inr s \<Rightarrow> Inr (parse_float s))"

section \<open>The storage collaborator\<close>

text \<open>
  The handlers reach the database only through the Mongoose model \<open>MaterialOrder\<close>, whose
  schema is not part of the sources.  They are therefore written over any collaborator: a
  record of the five model operations they call, each taking the storage state and
  returning the new one with either the operation's result or the error it throws.
  \<open>save\<close> stands for \<open>new MaterialOrder(doc)\<close> followed by \<open>.save()\<close>, and
  \<open>find_all\<close> for \<open>MaterialOrder.find()\<close>.
\<close>

record ('id, 's) collaborator =
  save :: "obj \<Rightarrow> 's \<Rightarrow> (js_error + obj) \<times> 's"
  find_all :: "'s \<Rightarrow> (js_error + obj list) \<times> 's"
  findById :: "'id \<Rightarrow> 's \<Rightarrow> (js_error + obj option) \<times> 's"
  findByIdAndUpdate :: "'id \<Rightarrow> obj \<Rightarrow> 's \<Rightarrow> (js_error + obj option) \<times> 's"
  findByIdAndDelete :: "'id \<Rightarrow> 's \<Rightarrow> (js_error + obj option) \<times> 's"

text \<open>
  Modelled from the spec: the document store behind \<open>MaterialOrder\<close> (the schema file
  \<open>database/Schema/materialOrderSchema\<close> and the database are absent).  The spec describes
  "a document storage interface exposing create, find-all, find-by-id,
  find-and-update-by-id (merge semantics, returns updated document),
  find-and-delete-by-id", where "storage assigns id" on create and "unspecified fields are
  left unchanged" on update.  The store is the list of documents under their identifiers;
  an identifier is a natural number and a new one is larger than all in use.
\<close>

type_synonym mem_store = "(nat \<times> obj) list"

definition fresh_id :: "mem_store \<Rightarrow> nat" where
  "fresh_id s = Suc (fold max (map fst s) 0)"

definition mem_save :: "obj \<Rightarrow> mem_store \<Rightarrow> (js_error + obj) \<times> mem_store" where
  "mem_save doc s = (Inr doc, s @ [(fresh_id s, doc)])"

definition mem_find :: "mem_store \<Rightarrow> (js_error + obj list) \<times> mem_store" where
  "mem_find s = (Inr (map snd s), s)"

definition mem_findById :: "nat \<Rightarrow> mem_store \<Rightarrow> (js_error + obj option) \<times> mem_store" where
  "mem_findById i s = (Inr (map_of s i), s)"

definition mem_findByIdAndUpdate ::
    "nat \<Rightarrow> obj \<Rightarrow> mem_store \<Rightarrow> (js_error + obj option) \<times> mem_store" where
  "mem_findByIdAndUpdate i updates s =
     (case map_of s i of
        None \<Rightarrow> (Inr None, s)
      | Some d \<Rightarrow> (Inr (Some (AList.merge d updates)), AList.update i (AList.merge d updates) s))"

definition mem_findByIdAndDelete :: "nat \<Rightarrow> mem_store \<Rightarrow> (js_error + obj option) \<times> mem_store" where
  "mem_findByIdAndDelete i s =
     (case map_of s i of
        None \<Rightarrow> (Inr None, s)
      | Some d \<Rightarrow> (Inr (Some d), AList.delete i s))"

definition MaterialOrder :: "(nat, mem_store) collaborator" where
  "MaterialOrder =
     \<lparr> save = mem_save, find_all = mem_find, findById = mem_findById,
       findByIdAndUpdate = mem_findByIdAndUpdate, findByIdAndDelete = mem_findByIdAndDelete \<rparr>"

section \<open>The route handlers of \<open>routes/materialOrderRoute.js\<close>\<close>

text \<open>
  A handler takes the collaborator, the request (\<open>req.body\<close>, an object, and
  \<open>req.params.id\<close>) and the storage state, and returns the response sent
  (\<open>res.status(c).json(b)\<close>) with the storage state it leaves.  An exception thrown inside
  the \<open>try\<close> block is a value \<open>Inl err\<close>, and the \<open>catch\<close> clause turns it into the
  handler's 500 response.
\<close>

record response =
  status_code :: nat
  json_body :: jsval

definition respond :: "nat \<Rightarrow> jsval \<Rightarrow> response" where
  "respond c b = \<lparr> status_code = c, json_body = b \<rparr>"

definition message :: "string \<Rightarrow> jsval" where
  "message m = Obj [(''message'', Str m)]"

subsection \<open>POST /\<close>

definition post_handler :: "('id, 's) collaborator \<Rightarrow> obj \<Rightarrow> 's \<Rightarrow> response \<times> 's" where
  "post_handler db body s =
     (let materialId = fld body ''materialId'';
          itemDescription = fld body ''itemDescription'';
          supplier = fld body ''supplier'';
          quantity = fld body ''quantity'';
          unitOfMeasurement = fld body ''unitOfMeasurement'';
          unitPrice = fld body ''unitPrice'';
          totalPrice = fld body ''totalPrice'';
          orderDate = fld body ''orderDate'';
          items = fld body ''items'';
          status = fld body ''status'';
          server_error = respond 500 (message ''Server error. Please try again later.'')
      in if \<not> truthy materialId \<or> \<not> truthy itemDescription \<or> \<not> truthy supplier \<or>
            \<not> truthy quantity \<or> \<not> truthy unitOfMeasurement \<or> \<not> truthy unitPrice \<or>
            \<not> truthy totalPrice \<or> \<not> truthy orderDate
         then (respond 400 (message ''All fields are required.''), s)
         else
           case parseFloat quantity of
             Inl err \<Rightarrow> (server_error, s)
           | Inr parsedQuantity \<Rightarrow>
           case parseFloat unitPrice of
             Inl err \<Rightarrow> (server_error, s)
           | Inr parsedUnitPrice \<Rightarrow>
           case parseFloat totalPrice of
             Inl err \<Rightarrow> (server_error, s)
           | Inr parsedTotalPrice \<Rightarrow>
           if isNaN parsedQuantity \<or> isNaN parsedUnitPrice \<or> isNaN parsedTotalPrice
           then (respond 400
                   (message ''Quantity, Unit Price, and Total Price must be valid numbers.''), s)
           else
             let calculatedTotal = js_mul parsedQuantity parsedUnitPrice;
                 roundedCalculatedTotal = parse_float (toFixed 2 calculatedTotal)
             in if \<not> num_strict_eq roundedCalculatedTotal parsedTotalPrice
                then (respond 400
                        (message ''Error in Total Price: Your total price is incorrect''), s)
                else
                  case save db
                         [(''materialId'', materialId),
                          (''itemDescription'', itemDescription),
                          (''supplier'', supplier),
                          (''quantity'', Num parsedQuantity),
                          (''unitOfMeasurement'', unitOfMeasurement),
                          (''unitPrice'', Num parsedUnitPrice),
                          (''totalPrice'', Num parsedTotalPrice),
                          (''orderDate'', orderDate),
                          (''items'', items),
                          (''status'', js_or status (Str ''Pending''))] s of
                    (Inl err, s') \<Rightarrow> (server_error, s')
                  | (Inr newMaterialOrder, s') \<Rightarrow>
                      (respond 201
                         (Obj [(''message'', Str ''Material Request created successfully''),
                               (''order'', Obj newMaterialOrder)]), s'))"

text \<open>The condition under which the first \<open>if\<close> of the handler lets the request through.\<close>

definition passes_required_check :: "obj \<Rightarrow> bool" where
  "passes_required_check body =
     (truthy (fld body ''materialId'') \<and> truthy (fld body ''itemDescription'') \<and>
      truthy (fld body ''supplier'') \<and> truthy (fld body ''quantity'') \<and>
      truthy (fld body ''unitOfMeasurement'') \<and> truthy (fld body ''unitPrice'') \<and>
      truthy (fld body ''totalPrice'') \<and> truthy (fld body ''orderDate''))"

subsection \<open>GET /allList and GET /:id\<close>

definition list_handler :: "('id, 's) collaborator \<Rightarrow> 's \<Rightarrow> response \<times> 's" where
  "list_handler db s =
     (case find_all db s of
        (Inl err, s') \<Rightarrow> (respond 500 (message ''Server error''), s')
      | (Inr materialOrders, s') \<Rightarrow> (respond 200 (Arr (map Obj materialOrders)), s'))"

definition get_handler :: "('id, 's) collaborator \<Rightarrow> 'id \<Rightarrow> 's \<Rightarrow> response \<times> 's" where
  "get_handler db ident s =
     (case findById db ident s of
        (Inl err, s') \<Rightarrow> (respond 500 (message ''Server error''), s')
      | (Inr None, s') \<Rightarrow> (respond 404 (message ''Material order not found''), s')
      | (Inr (Some order), s') \<Rightarrow> (respond 200 (Obj order), s'))"

subsection \<open>PUT /:id\<close>

text \<open>
  \<open>if (updates.k) updates.k = parseFloat(updates.k)\<close>: the assignment overwrites the
  property in place.
\<close>

definition parse_in_place :: "string \<Rightarrow> obj \<Rightarrow> js_error + obj" where
  "parse_in_place k updates =
     (if truthy (fld updates k)
      then (case parseFloat (fld updates k) of
              Inl err \<Rightarrow> Inl err
            | Inr n \<Rightarrow> Inr (AList.update k (Num n) updates))
      else Inr updates)"

text \<open>
  The operands of \<open>updates.quantity * updates.unitPrice\<close> and of \<open>!==\<close> are read where the
  property is truthy.  A truthy numeric property has been overwritten with the Number that
  \<open>parseFloat\<close> returned (lemma \<open>parse_in_place_truthy\<close> below), so the operand is that Number.
\<close>

fun the_number :: "jsval \<Rightarrow> jsnum" where
  "the_number (Num n) = n"
| "the_number _ = NaN"

text \<open>
  The handler in two parts.  \<open>put_validate\<close> is the \<open>try\<close> block up to the storage call:
  it returns either the response sent early (the 400 of the total-price check, or the 500 of
  the \<open>catch\<close> clause when \<open>parseFloat\<close> throws) or the \<open>updates\<close> object handed to
  \<open>findByIdAndUpdate\<close>.  \<open>put_reply\<close> is what follows the \<open>await\<close>.
\<close>

definition put_validate :: "obj \<Rightarrow> response + obj" where
  "put_validate body =
     (let server_error = respond 500 (message ''Server error. Please try again later.'')
      in case parse_in_place ''quantity'' body of
           Inl err \<Rightarrow> Inl server_error
         | Inr updates1 \<Rightarrow>
         case parse_in_place ''unitPrice'' updates1 of
           Inl err \<Rightarrow> Inl server_error
         | Inr updates2 \<Rightarrow>
         case parse_in_place ''totalPrice'' updates2 of
           Inl err \<Rightarrow> Inl server_error
         | Inr updates \<Rightarrow>
         if truthy (fld updates ''quantity'') \<and> truthy (fld updates ''unitPrice'') \<and>
            (let calculatedTotal =
                   js_mul (the_number (fld updates ''quantity''))
                          (the_number (fld updates ''unitPrice''));
                 roundedCalculatedTotal = parse_float (toFixed 2 calculatedTotal)
             in truthy (fld updates ''totalPrice'') \<and>
                \<not> num_strict_eq roundedCalculatedTotal (the_number (fld updates ''totalPrice'')))
         then Inl (respond 400 (message ''Error in Total Price: Your total price is incorrect.''))
         else Inr updates)"

definition put_reply :: "(js_error + obj option) \<times> 's \<Rightarrow> response \<times> 's" where
  "put_reply r =
     (case r of
        (Inl err, s') \<Rightarrow> (respond 500 (message ''Server error. Please try again later.''), s')
      | (Inr None, s') \<Rightarrow> (respond 404 (message ''Material request not found''), s')
      | (Inr (Some updatedOrder), s') \<Rightarrow>
          (respond 200
             (Obj [(''message'', Str ''Material request updated successfully''),
                   (''order'', Obj updatedOrder)]), s'))"

definition put_handler :: "('id, 's) collaborator \<Rightarrow> 'id \<Rightarrow> obj \<Rightarrow> 's \<Rightarrow> response \<times> 's" where
  "put_handler db ident body s =
     (case put_validate body of
        Inl early \<Rightarrow> (early, s)
      | Inr updates \<Rightarrow> put_reply (findByIdAndUpdate db ident updates s))"

subsection \<open>DELETE /:id\<close>

definition delete_handler :: "('id, 's) collaborator \<Rightarrow> 'id \<Rightarrow> 's \<Rightarrow> response \<times> 's" where
  "delete_handler db ident s =
     (case findByIdAndDelete db ident s of
        (Inl err, s') \<Rightarrow> (respond 500 (message ''Server error''), s')
      | (Inr None, s') \<Rightarrow> (respond 404 (message ''Material order not found''), s')
      | (Inr (Some deletedOrder), s') \<Rightarrow>
          (respond 200 (message ''Material order deleted successfully''), s'))"

section \<open>Example requests\<close>

text \<open>
  An order payload with the five non-numeric required fields filled in and the three numeric
  fields as given; \<open>lit\<close> is the Number that \<open>JSON.parse\<close> reads from a decimal literal.
\<close>

definition order_payload :: "jsval \<Rightarrow> jsval \<Rightarrow> jsval \<Rightarrow> obj" where
  "order_payload quantity unitPrice totalPrice =
     [(''materialId'', Str ''M-100''),
      (''itemDescription'', Str ''cement''),
      (''supplier'', Str ''Acme''),
      (''quantity'', quantity),
      (''unitOfMeasurement'', Str ''bag''),
      (''unitPrice'', unitPrice),
      (''totalPrice'', totalPrice),
      (''orderDate'', Str ''2024-05-01'')]"

definition lit :: "string \<Rightarrow> jsval" where
  "lit s = Num (parse_float s)"

text \<open>A stored order, and a store that holds it under the identifier 7.\<close>

definition stored_order :: obj where
  "stored_order =
     [(''materialId'', Str ''M-100''),
      (''itemDescription'', Str ''cement''),
      (''supplier'', Str ''Acme''),
      (''quantity'', lit ''10''),
      (''unitOfMeasurement'', Str ''bag''),
      (''unitPrice'', lit ''2.5''),
      (''totalPrice'', lit ''25''),
      (''orderDate'', Str ''2024-05-01''),
      (''items'', Undefined),
      (''status'', Str ''Pending'')]"

definition one_order_store :: mem_store where
  "one_order_store = [(7, stored_order)]"

section \<open>Create: the required-field check\<close>

text \<open>
  Claim C3.  When any of \<open>materialId\<close>, \<open>itemDescription\<close>, \<open>supplier\<close>, \<open>quantity\<close>,
  \<open>unitOfMeasurement\<close>, \<open>unitPrice\<close>, \<open>totalPrice\<close>, \<open>orderDate\<close> is missing or falsy in the
  payload, create responds 400 with "All fields are required.", whatever the collaborator
  is and without changing the storage state: nothing is parsed, checked or stored before.
\<close>

theorem create_requires_all_fields:
  assumes "\<not> truthy (fld body ''materialId'') \<or> \<not> truthy (fld body ''itemDescription'') \<or>
           \<not> truthy (fld body ''supplier'') \<or> \<not> truthy (fld body ''quantity'') \<or>
           \<not> truthy (fld body ''unitOfMeasurement'') \<or> \<not> truthy (fld body ''unitPrice'') \<or>
           \<not> truthy (fld body ''totalPrice'') \<or> \<not> truthy (fld body ''orderDate'')"
  shows "post_handler db body s = (respond 400 (message ''All fields are required.''), s)"
  using assms unfolding post_handler_def Let_def by (simp only: if_True)

theorem create_requires_all_fields_witness:
  "\<not> truthy (fld (order_payload (Num (Fin False 0 (- 1074))) (Str ''2'') (Str ''5'')) ''quantity'') \<and>
   post_handler MaterialOrder (order_payload (Num (Fin False 0 (- 1074))) (Str ''2'') (Str ''5''))
       one_order_store =
     (respond 400 (message ''All fields are required.''), one_order_store)"
proof -
  have h: "\<not> truthy (fld (order_payload (Num (Fin False 0 (- 1074))) (Str ''2'') (Str ''5'')) ''quantity'')"
    by (simp add: fld_def order_payload_def)
  show ?thesis
    using h create_requires_all_fields
      [of "order_payload (Num (Fin False 0 (- 1074))) (Str ''2'') (Str ''5'')" MaterialOrder one_order_store]
    by simp
qed

section \<open>Update: parsing in place and the total-price recheck\<close>

lemma fld_update: "fld (AList.update k v ob) k' = (if k' = k then v else fld ob k')"
  by (simp add: fld_def update_conv')

lemma truthy_fld_key:
  assumes "truthy (fld ob k)"
  shows "k \<in> fst ` set ob"
proof (cases "map_of ob k")
  case None
  then show ?thesis
    using assms by (simp add: fld_def)
next
  case (Some v)
  then have "(k, v) \<in> set ob"
    by (rule map_of_SomeD)
  then show ?thesis
    by (rule image_eqI [rotated]) simp
qed

lemma parse_in_place_Inl:
  "parse_in_place k u = Inl e \<longleftrightarrow> truthy (fld u k) \<and> parseFloat (fld u k) = Inl e"
  by (auto simp: parse_in_place_def split: sum.splits)

lemma parse_in_place_Inr:
  "parse_in_place k u = Inr u' \<longleftrightarrow>
     (\<not> truthy (fld u k) \<and> u' = u) \<or>
     (truthy (fld u k) \<and> (\<exists>n. parseFloat (fld u k) = Inr n \<and> u' = AList.update k (Num n) u))"
  by (auto simp: parse_in_place_def split: sum.splits)

lemma parse_in_place_other:
  "parse_in_place k u = Inr u' \<Longrightarrow> k' \<noteq> k \<Longrightarrow> fld u' k' = fld u k'"
  by (auto simp: parse_in_place_Inr fld_update)

lemma parse_in_place_same:
  "parse_in_place k u = Inr u' \<Longrightarrow> \<not> truthy (fld u k) \<Longrightarrow> fld u' k = fld u k"
  by (auto simp: parse_in_place_Inr)

lemma parse_in_place_truthy:
  "parse_in_place k u = Inr u' \<Longrightarrow> truthy (fld u' k) \<Longrightarrow>
     truthy (fld u k) \<and> (\<exists>n. parseFloat (fld u k) = Inr n \<and> fld u' k = Num n)"
  by (auto simp: parse_in_place_Inr fld_update)

lemma parse_in_place_keys:
  assumes "parse_in_place k u = Inr u'"
  shows "fst ` set u' = fst ` set u"
proof (cases "truthy (fld u k)")
  case True
  then obtain n where "u' = AList.update k (Num n) u"
    using assms by (auto simp: parse_in_place_Inr)
  moreover have "k \<in> fst ` set u"
    using True by (rule truthy_fld_key)
  ultimately show ?thesis
    by (simp only: dom_update insert_absorb Un_commute[of "{k}"] Un_insert_right Un_empty_right)
next
  case False
  then show ?thesis
    using assms by (simp add: parse_in_place_Inr)
qed

text \<open>The three parsing steps of the update handler, when none throws.\<close>

lemma put_validate_Inr_stages:
  assumes "put_validate body = Inr updates"
  shows "\<exists>u1 u2. parse_in_place ''quantity'' body = Inr u1 \<and>
                 parse_in_place ''unitPrice'' u1 = Inr u2 \<and>
                 parse_in_place ''totalPrice'' u2 = Inr updates"
  using assms unfolding put_validate_def Let_def
  by (auto split: sum.splits if_splits)

lemma put_validate_Inl_400:
  assumes "put_validate body = Inl r" "status_code r = 400"
  shows "r = respond 400 (message ''Error in Total Price: Your total price is incorrect.'') \<and>
         (\<exists>u1 u2 u3. parse_in_place ''quantity'' body = Inr u1 \<and>
                 parse_in_place ''unitPrice'' u1 = Inr u2 \<and>
                 parse_in_place ''totalPrice'' u2 = Inr u3 \<and>
                 truthy (fld u3 ''quantity'') \<and> truthy (fld u3 ''unitPrice'') \<and>
                 truthy (fld u3 ''totalPrice'') \<and>
                 \<not> num_strict_eq
                     (parse_float (toFixed 2 (js_mul (the_number (fld u3 ''quantity''))
                                                    (the_number (fld u3 ''unitPrice'')))))
                     (the_number (fld u3 ''totalPrice'')))"
  using assms unfolding put_validate_def Let_def
  by (auto split: sum.splits if_splits simp: respond_def)

lemma put_validate_keys:
  assumes "put_validate body = Inr updates"
  shows "fst ` set updates = fst ` set body"
proof -
  from put_validate_Inr_stages [OF assms] obtain u1 u2 where
    "parse_in_place ''quantity'' body = Inr u1"
    "parse_in_place ''unitPrice'' u1 = Inr u2"
    "parse_in_place ''totalPrice'' u2 = Inr updates"
    by blast
  then show ?thesis
    by (simp add: parse_in_place_keys)
qed

lemma put_reply_status: "status_code (fst (put_reply r)) \<noteq> 400"
  by (auto simp: put_reply_def respond_def split: prod.splits sum.splits option.splits)

lemma put_validate_400_iff:
  "(\<exists>r. put_validate body = Inl r \<and> status_code r = 400) \<longleftrightarrow>
     (\<exists>q u t. truthy (fld body ''quantity'') \<and> truthy (fld body ''unitPrice'') \<and>
              truthy (fld body ''totalPrice'') \<and>
              parseFloat (fld body ''quantity'') = Inr q \<and>
              parseFloat (fld body ''unitPrice'') = Inr u \<and>
              parseFloat (fld body ''totalPrice'') = Inr t \<and>
              truthy (Num q) \<and> truthy (Num u) \<and> truthy (Num t) \<and>
              \<not> num_strict_eq (parse_float (toFixed 2 (js_mul q u))) t)"
  (is "?L \<longleftrightarrow> ?R")
proof
  assume ?L
  then obtain r where r: "put_validate body = Inl r" "status_code r = 400"
    by blast
  from put_validate_Inl_400 [OF r] obtain u1 u2 u3 where
    p1: "parse_in_place ''quantity'' body = Inr u1" and
    p2: "parse_in_place ''unitPrice'' u1 = Inr u2" and
    p3: "parse_in_place ''totalPrice'' u2 = Inr u3" and
    tq: "truthy (fld u3 ''quantity'')" and tu: "truthy (fld u3 ''unitPrice'')" and
    tt: "truthy (fld u3 ''totalPrice'')" and
    ne: "\<not> num_strict_eq
           (parse_float (toFixed 2 (js_mul (the_number (fld u3 ''quantity''))
                                          (the_number (fld u3 ''unitPrice'')))))
           (the_number (fld u3 ''totalPrice''))"
    by blast
  have q3: "fld u3 ''quantity'' = fld u1 ''quantity''"
    using parse_in_place_other [OF p3, of "''quantity''"]
          parse_in_place_other [OF p2, of "''quantity''"] by simp
  have u3: "fld u3 ''unitPrice'' = fld u2 ''unitPrice''"
    using parse_in_place_other [OF p3, of "''unitPrice''"] by simp
  have u1: "fld u1 ''unitPrice'' = fld body ''unitPrice''"
    using parse_in_place_other [OF p1, of "''unitPrice''"] by simp
  have t2: "fld u2 ''totalPrice'' = fld body ''totalPrice''"
    using parse_in_place_other [OF p2, of "''totalPrice''"]
          parse_in_place_other [OF p1, of "''totalPrice''"] by simp
  from parse_in_place_truthy [OF p1] tq q3 obtain q where
    q: "truthy (fld body ''quantity'')" "parseFloat (fld body ''quantity'') = Inr q"
       "fld u3 ''quantity'' = Num q"
    by auto
  from parse_in_place_truthy [OF p2] tu u3 u1 obtain u where
    u: "truthy (fld body ''unitPrice'')" "parseFloat (fld body ''unitPrice'') = Inr u"
       "fld u3 ''unitPrice'' = Num u"
    by auto
  from parse_in_place_truthy [OF p3] tt t2 obtain t where
    t: "truthy (fld body ''totalPrice'')" "parseFloat (fld body ''totalPrice'') = Inr t"
       "fld u3 ''totalPrice'' = Num t"
    by auto
  show ?R
    using q u t tq tu tt ne by auto
next
  assume ?R
  then obtain q u t where
    h: "truthy (fld body ''quantity'')" "truthy (fld body ''unitPrice'')"
       "truthy (fld body ''totalPrice'')"
       "parseFloat (fld body ''quantity'') = Inr q"
       "parseFloat (fld body ''unitPrice'') = Inr u"
       "parseFloat (fld body ''totalPrice'') = Inr t"
       "truthy (Num q)" "truthy (Num u)" "truthy (Num t)"
       "\<not> num_strict_eq (parse_float (toFixed 2 (js_mul q u))) t"
    by blast
  have "put_validate body =
          Inl (respond 400 (message ''Error in Total Price: Your total price is incorrect.''))"
    using h by (simp add: put_validate_def parse_in_place_def fld_update Let_def)
  then show ?L
    by (auto simp: respond_def)
qed

text \<open>
  Claim C2, as amended.  An update is answered with status 400 exactly when \<open>quantity\<close>,
  \<open>unitPrice\<close> and \<open>totalPrice\<close> are all truthy in the payload, \<open>parseFloat\<close> returns a
  truthy Number (neither NaN nor zero) for each, and the rounded product differs from the
  parsed total; the response then carries the message
  "Error in Total Price: Your total price is incorrect." (with a final full stop, which
  the message of create does not have) and the storage state is untouched.
\<close>

theorem update_total_check:
  "(status_code (fst (put_handler db ident body s)) = 400 \<longleftrightarrow>
      (\<exists>q u t. truthy (fld body ''quantity'') \<and> truthy (fld body ''unitPrice'') \<and>
               truthy (fld body ''totalPrice'') \<and>
               parseFloat (fld body ''quantity'') = Inr q \<and>
               parseFloat (fld body ''unitPrice'') = Inr u \<and>
               parseFloat (fld body ''totalPrice'') = Inr t \<and>
               truthy (Num q) \<and> truthy (Num u) \<and> truthy (Num t) \<and>
               \<not> num_strict_eq (parse_float (toFixed 2 (js_mul q u))) t)) \<and>
   (status_code (fst (put_handler db ident body s)) = 400 \<longrightarrow>
      put_handler db ident body s =
        (respond 400 (message ''Error in Total Price: Your total price is incorrect.''), s))"
proof (cases "put_validate body")
  case (Inl r)
  then have "put_handler db ident body s = (r, s)"
    by (simp add: put_handler_def)
  moreover have "status_code r = 400 \<Longrightarrow>
      r = respond 400 (message ''Error in Total Price: Your total price is incorrect.'')"
    using put_validate_Inl_400 [OF Inl] by simp
  ultimately show ?thesis
    using put_validate_400_iff [of body] Inl by auto
next
  case (Inr updates)
  then have "status_code (fst (put_handler db ident body s)) \<noteq> 400"
    by (simp add: put_handler_def put_reply_status)
  then show ?thesis
    using put_validate_400_iff [of body] Inr by auto
qed

theorem update_total_check_witness:
  "\<not> truthy (fld [(''quantity'', lit ''5''), (''unitPrice'', lit ''4'')] ''totalPrice'') \<and>
   status_code (fst (put_handler MaterialOrder 7
       [(''quantity'', lit ''5''), (''unitPrice'', lit ''4'')] one_order_store)) \<noteq> 400"
  using update_total_check
    [of MaterialOrder 7 "[(''quantity'', lit ''5''), (''unitPrice'', lit ''4'')]" one_order_store]
  by (simp add: fld_def)

text \<open>
  The claim as stated has update fail with the same message as create.  The same three
  numbers, 2 times 3 against a total of 7, are rejected by both handlers, and the two
  bodies differ: only the message of update ends with a full stop.
\<close>

theorem update_message_differs_from_create:
  "put_handler MaterialOrder 7
       [(''quantity'', Str ''2''), (''unitPrice'', Str ''3''), (''totalPrice'', Str ''7'')]
       one_order_store =
     (respond 400 (message ''Error in Total Price: Your total price is incorrect.''),
      one_order_store) \<and>
   post_handler MaterialOrder (order_payload (Str ''2'') (Str ''3'') (Str ''7'')) one_order_store =
     (respond 400 (message ''Error in Total Price: Your total price is incorrect''),
      one_order_store) \<and>
   json_body (fst (put_handler MaterialOrder 7
       [(''quantity'', Str ''2''), (''unitPrice'', Str ''3''), (''totalPrice'', Str ''7'')]
       one_order_store)) \<noteq>
   json_body (fst (post_handler MaterialOrder (order_payload (Str ''2'') (Str ''3'') (Str ''7''))
       one_order_store))"
  by code_simp

section \<open>Create: the total-price check\<close>

lemma post_handler_parsed:
  assumes "passes_required_check body"
    and "parseFloat (fld body ''quantity'') = Inr pq"
    and "parseFloat (fld body ''unitPrice'') = Inr pu"
    and "parseFloat (fld body ''totalPrice'') = Inr pt"
  shows "post_handler db body s =
     (if isNaN pq \<or> isNaN pu \<or> isNaN pt
      then (respond 400 (message ''Quantity, Unit Price, and Total Price must be valid numbers.''), s)
      else if \<not> num_strict_eq (parse_float (toFixed 2 (js_mul pq pu))) pt
      then (respond 400 (message ''Error in Total Price: Your total price is incorrect''), s)
      else
        case save db
               [(''materialId'', fld body ''materialId''),
                (''itemDescription'', fld body ''itemDescription''),
                (''supplier'', fld body ''supplier''),
                (''quantity'', Num pq),
                (''unitOfMeasurement'', fld body ''unitOfMeasurement''),
                (''unitPrice'', Num pu),
                (''totalPrice'', Num pt),
                (''orderDate'', fld body ''orderDate''),
                (''items'', fld body ''items''),
                (''status'', js_or (fld body ''status'') (Str ''Pending''))] s of
          (Inl err, s') \<Rightarrow> (respond 500 (message ''Server error. Please try again later.''), s')
        | (Inr newMaterialOrder, s') \<Rightarrow>
            (respond 201
               (Obj [(''message'', Str ''Material Request created successfully''),
                     (''order'', Obj newMaterialOrder)]), s'))"
  using assms unfolding post_handler_def passes_required_check_def Let_def
  by simp

text \<open>
  Claim C1, as amended.  For a create payload that passes the required-field check and
  whose three numeric fields parse to Numbers other than NaN, if
  \<open>parseFloat((quantity * unitPrice).toFixed(2))\<close> is not strictly equal to the parsed
  \<open>totalPrice\<close>, create responds 400 with "Error in Total Price: Your total price is
  incorrect" and stores nothing.  The witness is the payload with quantity 3, unit price
  2.505 and total price 7.50: the binary64 product is below 7.515, \<open>toFixed(2)\<close> prints it as
  7.51, and create responds 400.
\<close>

theorem create_rejects_wrong_total:
  assumes "passes_required_check body"
    and "parseFloat (fld body ''quantity'') = Inr pq"
    and "parseFloat (fld body ''unitPrice'') = Inr pu"
    and "parseFloat (fld body ''totalPrice'') = Inr pt"
    and "\<not> isNaN pq" "\<not> isNaN pu" "\<not> isNaN pt"
    and "\<not> num_strict_eq (parse_float (toFixed 2 (js_mul pq pu))) pt"
  shows "post_handler db body s =
           (respond 400 (message ''Error in Total Price: Your total price is incorrect''), s)"
  using assms by (simp add: post_handler_parsed)

theorem create_rejects_wrong_total_witness:
  "passes_required_check (order_payload (lit ''3'') (lit ''2.505'') (lit ''7.50'')) \<and>
   parseFloat (fld (order_payload (lit ''3'') (lit ''2.505'') (lit ''7.50'')) ''quantity'') =
     Inr (parse_float ''3'') \<and>
   parseFloat (fld (order_payload (lit ''3'') (lit ''2.505'') (lit ''7.50'')) ''unitPrice'') =
     Inr (parse_float ''2.505'') \<and>
   parseFloat (fld (order_payload (lit ''3'') (lit ''2.505'') (lit ''7.50'')) ''totalPrice'') =
     Inr (parse_float ''7.50'') \<and>
   \<not> isNaN (parse_float ''3'') \<and> \<not> isNaN (parse_float ''2.505'') \<and>
   \<not> isNaN (parse_float ''7.50'') \<and>
   toFixed 2 (js_mul (parse_float ''3'') (parse_float ''2.505'')) = ''7.51'' \<and>
   \<not> num_strict_eq (parse_float (toFixed 2 (js_mul (parse_float ''3'') (parse_float ''2.505''))))
       (parse_float ''7.50'') \<and>
   post_handler MaterialOrder (order_payload (lit ''3'') (lit ''2.505'') (lit ''7.50''))
       one_order_store =
     (respond 400 (message ''Error in Total Price: Your total price is incorrect''),
      one_order_store)"
proof -
  let ?B = "order_payload (lit ''3'') (lit ''2.505'') (lit ''7.50'')"
  have h1: "passes_required_check ?B"
    by code_simp
  have h2: "parseFloat (fld ?B ''quantity'') = Inr (parse_float ''3'')"
    by code_simp
  have h3: "parseFloat (fld ?B ''unitPrice'') = Inr (parse_float ''2.505'')"
    by code_simp
  have h4: "parseFloat (fld ?B ''totalPrice'') = Inr (parse_float ''7.50'')"
    by code_simp
  have h5: "\<not> isNaN (parse_float ''3'')" "\<not> isNaN (parse_float ''2.505'')"
           "\<not> isNaN (parse_float ''7.50'')"
    by code_simp+
  have h6: "toFixed 2 (js_mul (parse_float ''3'') (parse_float ''2.505'')) = ''7.51''"
    by code_simp
  have h7: "\<not> num_strict_eq
              (parse_float (toFixed 2 (js_mul (parse_float ''3'') (parse_float ''2.505''))))
              (parse_float ''7.50'')"
    by code_simp
  from create_rejects_wrong_total [OF h1 h2 h3 h4 h5 h7, of MaterialOrder one_order_store]
  show ?thesis
    using h1 h2 h3 h4 h5 h6 h7 by blast
qed

text \<open>
  The claim as stated fails at two points.  The rounded product of 3 and 2.505 is 7.51 and
  is not 7.52.  And the mismatch message is not sent for every payload with three numbers
  and a wrong total: the payload above without its first property \<open>materialId\<close> is stopped
  by the required-field check.
\<close>

theorem create_total_mismatch_counterexample:
  "parse_float (toFixed 2 (js_mul (parse_float ''3'') (parse_float ''2.505''))) =
     parse_float ''7.51'' \<and>
   \<not> num_strict_eq (parse_float (toFixed 2 (js_mul (parse_float ''3'') (parse_float ''2.505''))))
       (parse_float ''7.52'') \<and>
   parseFloat (fld (tl (order_payload (lit ''3'') (lit ''2.505'') (lit ''7.50''))) ''quantity'') =
     Inr (parse_float ''3'') \<and>
   parseFloat (fld (tl (order_payload (lit ''3'') (lit ''2.505'') (lit ''7.50''))) ''unitPrice'') =
     Inr (parse_float ''2.505'') \<and>
   parseFloat (fld (tl (order_payload (lit ''3'') (lit ''2.505'') (lit ''7.50''))) ''totalPrice'') =
     Inr (parse_float ''7.50'') \<and>
   post_handler MaterialOrder (tl (order_payload (lit ''3'') (lit ''2.505'') (lit ''7.50'')))
       one_order_store =
     (respond 400 (message ''All fields are required.''), one_order_store)"
  by code_simp

section \<open>Create: the number check, and a successful create\<close>

text \<open>
  Claim C4, as amended.  For a create payload that passes the required-field check and on
  which none of the three \<open>parseFloat\<close> calls throws, if any of \<open>quantity\<close>, \<open>unitPrice\<close>,
  \<open>totalPrice\<close> parses to NaN, create responds 400 with "Quantity, Unit Price, and Total
  Price must be valid numbers." and stores nothing: the storage state is returned
  unchanged, whatever the collaborator is.
\<close>

theorem create_rejects_NaN:
  assumes "passes_required_check body"
    and "parseFloat (fld body ''quantity'') = Inr pq"
    and "parseFloat (fld body ''unitPrice'') = Inr pu"
    and "parseFloat (fld body ''totalPrice'') = Inr pt"
    and "isNaN pq \<or> isNaN pu \<or> isNaN pt"
  shows "post_handler db body s =
           (respond 400
              (message ''Quantity, Unit Price, and Total Price must be valid numbers.''), s)"
  using assms by (simp add: post_handler_parsed)

theorem create_rejects_NaN_witness:
  "passes_required_check (order_payload (Str ''ten'') (lit ''2.5'') (lit ''25'')) \<and>
   parseFloat (fld (order_payload (Str ''ten'') (lit ''2.5'') (lit ''25'')) ''quantity'') = Inr NaN \<and>
   parseFloat (fld (order_payload (Str ''ten'') (lit ''2.5'') (lit ''25'')) ''unitPrice'') =
     Inr (parse_float ''2.5'') \<and>
   parseFloat (fld (order_payload (Str ''ten'') (lit ''2.5'') (lit ''25'')) ''totalPrice'') =
     Inr (parse_float ''25'') \<and>
   isNaN NaN \<and>
   post_handler MaterialOrder (order_payload (Str ''ten'') (lit ''2.5'') (lit ''25''))
       one_order_store =
     (respond 400
        (message ''Quantity, Unit Price, and Total Price must be valid numbers.''),
      one_order_store)"
proof -
  let ?B = "order_payload (Str ''ten'') (lit ''2.5'') (lit ''25'')"
  have h1: "passes_required_check ?B"
    by code_simp
  have h2: "parseFloat (fld ?B ''quantity'') = Inr NaN"
    by code_simp
  have h3: "parseFloat (fld ?B ''unitPrice'') = Inr (parse_float ''2.5'')"
    by code_simp
  have h4: "parseFloat (fld ?B ''totalPrice'') = Inr (parse_float ''25'')"
    by code_simp
  have h5: "isNaN NaN \<or> isNaN (parse_float ''2.5'') \<or> isNaN (parse_float ''25'')"
    by (simp add: isNaN_def)
  from create_rejects_NaN [OF h1 h2 h3 h4 h5, of MaterialOrder one_order_store]
  show ?thesis
    using h1 h2 h3 h4 by (simp add: isNaN_def)
qed

text \<open>
  The claim as stated fails where another numeric field makes \<open>parseFloat\<close> throw: with
  quantity \<open>"ten"\<close> (which parses to NaN) and a unit price that is an object with an own
  property \<open>toString\<close>, the second \<open>parseFloat\<close> call throws a TypeError before the NaN
  check is reached, and the \<open>catch\<close> clause answers 500.
\<close>

theorem create_NaN_counterexample:
  "passes_required_check
     (order_payload (Str ''ten'') (Obj [(''toString'', lit ''1'')]) (lit ''25'')) \<and>
   parseFloat (fld (order_payload (Str ''ten'') (Obj [(''toString'', lit ''1'')]) (lit ''25''))
     ''quantity'') = Inr NaN \<and>
   parseFloat (fld (order_payload (Str ''ten'') (Obj [(''toString'', lit ''1'')]) (lit ''25''))
     ''unitPrice'') = Inl TypeError \<and>
   post_handler MaterialOrder
       (order_payload (Str ''ten'') (Obj [(''toString'', lit ''1'')]) (lit ''25''))
       one_order_store =
     (respond 500 (message ''Server error. Please try again later.''), one_order_store)"
  by code_simp

lemma fold_max_ge: "a \<le> fold max xs (a::nat)"
proof (induction xs arbitrary: a)
  case Nil
  then show ?case by simp
next
  case (Cons x xs)
  have "a \<le> max x a" by simp
  also have "\<dots> \<le> fold max xs (max x a)" by (rule Cons.IH)
  finally show ?case by simp
qed

lemma fold_max_member: "x \<in> set xs \<Longrightarrow> x \<le> fold max xs (a::nat)"
proof (induction xs arbitrary: a)
  case Nil
  then show ?case by simp
next
  case (Cons y ys)
  show ?case
  proof (cases "x = y")
    case True
    have "x \<le> max y a" using True by simp
    also have "\<dots> \<le> fold max ys (max y a)" by (rule fold_max_ge)
    finally show ?thesis by simp
  next
    case False
    then have "x \<in> set ys" using Cons.prems by simp
    then show ?thesis by (simp add: Cons.IH)
  qed
qed

lemma fresh_id_fresh: "fresh_id s \<notin> fst ` set s"
proof
  assume "fresh_id s \<in> fst ` set s"
  then have "fresh_id s \<in> set (map fst s)" by simp
  then have "fresh_id s \<le> fold max (map fst s) 0" by (rule fold_max_member)
  then show False by (simp add: fresh_id_def)
qed

lemma map_of_snoc_fresh: "map_of (s @ [(fresh_id s, d)]) (fresh_id s) = Some d"
proof -
  have "map_of s (fresh_id s) = None"
    using fresh_id_fresh [of s] by (simp add: map_of_eq_None_iff)
  then show ?thesis
    by (simp add: map_add_def)
qed

lemma map_of_snoc_other: "i \<noteq> fresh_id s \<Longrightarrow> map_of (s @ [(fresh_id s, d)]) i = map_of s i"
  by (simp add: map_add_def split: option.splits)

lemma create_valid:
  assumes "passes_required_check body"
    and "parseFloat (fld body ''quantity'') = Inr pq"
    and "parseFloat (fld body ''unitPrice'') = Inr pu"
    and "parseFloat (fld body ''totalPrice'') = Inr pt"
    and "\<not> isNaN pq" "\<not> isNaN pu" "\<not> isNaN pt"
    and "num_strict_eq (parse_float (toFixed 2 (js_mul pq pu))) pt"
    and "order =
           [(''materialId'', fld body ''materialId''),
            (''itemDescription'', fld body ''itemDescription''),
            (''supplier'', fld body ''supplier''),
            (''quantity'', Num pq),
            (''unitOfMeasurement'', fld body ''unitOfMeasurement''),
            (''unitPrice'', Num pu),
            (''totalPrice'', Num pt),
            (''orderDate'', fld body ''orderDate''),
            (''items'', fld body ''items''),
            (''status'', js_or (fld body ''status'') (Str ''Pending''))]"
  shows "post_handler MaterialOrder body s =
           (respond 201
              (Obj [(''message'', Str ''Material Request created successfully''),
                    (''order'', Obj order)]),
            s @ [(fresh_id s, order)])"
  using assms by (simp add: post_handler_parsed MaterialOrder_def mem_save_def)

text \<open>
  Claim C5, as amended.  A create payload that passes all validation (the eight required
  fields truthy, the three numeric fields parsed to Numbers other than NaN, the rounded
  product strictly equal to the parsed total) is answered with status 201 and a body made
  of a message and the order.  The order is stored under a new identifier, where a
  following get-by-id finds it and no other record is disturbed; its \<open>quantity\<close>,
  \<open>unitPrice\<close> and \<open>totalPrice\<close> are the parsed Numbers, its other fields those of the
  payload, and its \<open>status\<close> is the payload's status when that is truthy and the string
  "Pending" otherwise, in particular when the payload has none.
\<close>

theorem create_persists_parsed_order:
  assumes "passes_required_check body"
    and "parseFloat (fld body ''quantity'') = Inr pq"
    and "parseFloat (fld body ''unitPrice'') = Inr pu"
    and "parseFloat (fld body ''totalPrice'') = Inr pt"
    and "\<not> isNaN pq" "\<not> isNaN pu" "\<not> isNaN pt"
    and "num_strict_eq (parse_float (toFixed 2 (js_mul pq pu))) pt"
  shows "\<exists>order.
     post_handler MaterialOrder body s =
       (respond 201
          (Obj [(''message'', Str ''Material Request created successfully''),
                (''order'', Obj order)]),
        s @ [(fresh_id s, order)]) \<and>
     fld order ''quantity'' = Num pq \<and>
     fld order ''unitPrice'' = Num pu \<and>
     fld order ''totalPrice'' = Num pt \<and>
     fld order ''status'' = (if truthy (fld body ''status'') then fld body ''status'' else Str ''Pending'') \<and>
     (map_of body ''status'' = None \<longrightarrow> fld order ''status'' = Str ''Pending'') \<and>
     (\<forall>k \<in> {''materialId'', ''itemDescription'', ''supplier'', ''unitOfMeasurement'',
             ''orderDate'', ''items''}. fld order k = fld body k) \<and>
     get_handler MaterialOrder (fresh_id s) (s @ [(fresh_id s, order)]) =
       (respond 200 (Obj order), s @ [(fresh_id s, order)]) \<and>
     (\<forall>i. i \<noteq> fresh_id s \<longrightarrow> map_of (s @ [(fresh_id s, order)]) i = map_of s i)"
proof -
  define order where "order =
     [(''materialId'', fld body ''materialId''),
      (''itemDescription'', fld body ''itemDescription''),
      (''supplier'', fld body ''supplier''),
      (''quantity'', Num pq),
      (''unitOfMeasurement'', fld body ''unitOfMeasurement''),
      (''unitPrice'', Num pu),
      (''totalPrice'', Num pt),
      (''orderDate'', fld body ''orderDate''),
      (''items'', fld body ''items''),
      (''status'', js_or (fld body ''status'') (Str ''Pending''))]"
  have created: "post_handler MaterialOrder body s =
       (respond 201
          (Obj [(''message'', Str ''Material Request created successfully''),
                (''order'', Obj order)]),
        s @ [(fresh_id s, order)])"
    using assms order_def by (rule create_valid)
  have numbers: "fld order ''quantity'' = Num pq" "fld order ''unitPrice'' = Num pu"
    "fld order ''totalPrice'' = Num pt"
    by (simp_all add: order_def fld_def)
  have status: "fld order ''status'' =
      (if truthy (fld body ''status'') then fld body ''status'' else Str ''Pending'')"
    by (simp add: order_def fld_def js_or_def)
  have absent: "map_of body ''status'' = None \<longrightarrow> fld order ''status'' = Str ''Pending''"
    by (simp add: order_def fld_def js_or_def)
  have others: "\<forall>k \<in> {''materialId'', ''itemDescription'', ''supplier'', ''unitOfMeasurement'',
             ''orderDate'', ''items''}. fld order k = fld body k"
    by (simp add: order_def fld_def)
  have found: "get_handler MaterialOrder (fresh_id s) (s @ [(fresh_id s, order)]) =
       (respond 200 (Obj order), s @ [(fresh_id s, order)])"
    by (simp add: get_handler_def MaterialOrder_def mem_findById_def map_of_snoc_fresh
             del: map_of_append)
  have kept: "\<forall>i. i \<noteq> fresh_id s \<longrightarrow> map_of (s @ [(fresh_id s, order)]) i = map_of s i"
    by (simp add: map_of_snoc_other del: map_of_append)
  show ?thesis
    using created numbers status absent others found kept
    by (intro exI [of _ order] conjI) assumption+
qed

theorem create_persists_parsed_order_witness:
  "passes_required_check (order_payload (lit ''10'') (lit ''2.50'') (lit ''25.00'')) \<and>
   parseFloat (fld (order_payload (lit ''10'') (lit ''2.50'') (lit ''25.00'')) ''quantity'') =
     Inr (parse_float ''10'') \<and>
   parseFloat (fld (order_payload (lit ''10'') (lit ''2.50'') (lit ''25.00'')) ''unitPrice'') =
     Inr (parse_float ''2.5'') \<and>
   parseFloat (fld (order_payload (lit ''10'') (lit ''2.50'') (lit ''25.00'')) ''totalPrice'') =
     Inr (parse_float ''25'') \<and>
   \<not> isNaN (parse_float ''10'') \<and> \<not> isNaN (parse_float ''2.5'') \<and> \<not> isNaN (parse_float ''25'') \<and>
   num_strict_eq (parse_float (toFixed 2 (js_mul (parse_float ''10'') (parse_float ''2.5''))))
     (parse_float ''25'') \<and>
   (\<exists>order.
      post_handler MaterialOrder (order_payload (lit ''10'') (lit ''2.50'') (lit ''25.00''))
          one_order_store =
        (respond 201
           (Obj [(''message'', Str ''Material Request created successfully''),
                 (''order'', Obj order)]),
         one_order_store @ [(fresh_id one_order_store, order)]) \<and>
      fld order ''quantity'' = Num (parse_float ''10'') \<and>
      fld order ''status'' = Str ''Pending'')"
proof -
  let ?B = "order_payload (lit ''10'') (lit ''2.50'') (lit ''25.00'')"
  have h1: "passes_required_check ?B"
    by code_simp
  have h2: "parseFloat (fld ?B ''quantity'') = Inr (parse_float ''10'')"
    by code_simp
  have h3: "parseFloat (fld ?B ''unitPrice'') = Inr (parse_float ''2.5'')"
    by code_simp
  have h4: "parseFloat (fld ?B ''totalPrice'') = Inr (parse_float ''25'')"
    by code_simp
  have h5: "\<not> isNaN (parse_float ''10'')" "\<not> isNaN (parse_float ''2.5'')"
           "\<not> isNaN (parse_float ''25'')"
    by code_simp+
  have h6: "num_strict_eq
              (parse_float (toFixed 2 (js_mul (parse_float ''10'') (parse_float ''2.5''))))
              (parse_float ''25'')"
    by code_simp
  have h7: "map_of ?B ''status'' = None"
    by (simp add: order_payload_def)
  from create_persists_parsed_order [OF h1 h2 h3 h4 h5 h6, of one_order_store] h7
  have "\<exists>order.
      post_handler MaterialOrder ?B one_order_store =
        (respond 201
           (Obj [(''message'', Str ''Material Request created successfully''),
                 (''order'', Obj order)]),
         one_order_store @ [(fresh_id one_order_store, order)]) \<and>
      fld order ''quantity'' = Num (parse_float ''10'') \<and>
      fld order ''status'' = Str ''Pending''"
    by blast
  then show ?thesis
    using h1 h2 h3 h4 h5 h6 by blast
qed

text \<open>
  The claim as stated keeps the payload's status unless it is absent.  A valid payload
  whose \<open>status\<close> is the empty string, present but falsy, is answered 201 and the order
  stored has the status "Pending", not the empty string of the payload.
\<close>

theorem create_status_counterexample:
  "map_of (order_payload (lit ''10'') (lit ''2.50'') (lit ''25.00'') @ [(''status'', Str [])])
     ''status'' = Some (Str []) \<and>
   passes_required_check
     (order_payload (lit ''10'') (lit ''2.50'') (lit ''25.00'') @ [(''status'', Str [])]) \<and>
   post_handler MaterialOrder
       (order_payload (lit ''10'') (lit ''2.50'') (lit ''25.00'') @ [(''status'', Str [])])
       one_order_store =
     (respond 201
        (Obj [(''message'', Str ''Material Request created successfully''),
              (''order'', Obj stored_order)]),
      one_order_store @ [(8, stored_order)]) \<and>
   fld stored_order ''status'' = Str ''Pending'' \<and>
   fld stored_order ''status'' \<noteq> Str []"
  by code_simp

text \<open>
  Claim C10.  When a create payload passes validation and carries a \<open>status\<close> property
  whose value is falsy (the empty string, for one), the stored order's status is the
  string "Pending" and not the value supplied: \<open>status || "Pending"\<close> defaults on every
  falsy status, not only on an absent one.
\<close>

theorem create_falsy_status_is_Pending:
  assumes "passes_required_check body"
    and "parseFloat (fld body ''quantity'') = Inr pq"
    and "parseFloat (fld body ''unitPrice'') = Inr pu"
    and "parseFloat (fld body ''totalPrice'') = Inr pt"
    and "\<not> isNaN pq" "\<not> isNaN pu" "\<not> isNaN pt"
    and "num_strict_eq (parse_float (toFixed 2 (js_mul pq pu))) pt"
    and "map_of body ''status'' = Some v" "\<not> truthy v"
  shows "\<exists>order.
     post_handler MaterialOrder body s =
       (respond 201
          (Obj [(''message'', Str ''Material Request created successfully''),
                (''order'', Obj order)]),
        s @ [(fresh_id s, order)]) \<and>
     map_of (s @ [(fresh_id s, order)]) (fresh_id s) = Some order \<and>
     fld order ''status'' = Str ''Pending'' \<and>
     fld order ''status'' \<noteq> v"
proof -
  define order where "order =
     [(''materialId'', fld body ''materialId''),
      (''itemDescription'', fld body ''itemDescription''),
      (''supplier'', fld body ''supplier''),
      (''quantity'', Num pq),
      (''unitOfMeasurement'', fld body ''unitOfMeasurement''),
      (''unitPrice'', Num pu),
      (''totalPrice'', Num pt),
      (''orderDate'', fld body ''orderDate''),
      (''items'', fld body ''items''),
      (''status'', js_or (fld body ''status'') (Str ''Pending''))]"
  have created: "post_handler MaterialOrder body s =
       (respond 201
          (Obj [(''message'', Str ''Material Request created successfully''),
                (''order'', Obj order)]),
        s @ [(fresh_id s, order)])"
    using assms(1-8) order_def by (rule create_valid)
  have stored: "map_of (s @ [(fresh_id s, order)]) (fresh_id s) = Some order"
    by (rule map_of_snoc_fresh)
  have "fld body ''status'' = v"
    using assms(9) by (simp add: fld_def)
  then have pending: "fld order ''status'' = Str ''Pending''"
    using assms(10) by (simp add: order_def fld_def js_or_def)
  have "truthy (Str ''Pending'')"
    by simp
  then have "Str ''Pending'' \<noteq> v"
    using assms(10) by auto
  then have "fld order ''status'' \<noteq> v"
    using pending by simp
  with created stored pending show ?thesis
    by (intro exI [of _ order] conjI) assumption+
qed

theorem create_falsy_status_is_Pending_witness:
  "passes_required_check
     (order_payload (lit ''10'') (lit ''2.50'') (lit ''25.00'') @ [(''status'', Str [])]) \<and>
   map_of (order_payload (lit ''10'') (lit ''2.50'') (lit ''25.00'') @ [(''status'', Str [])])
     ''status'' = Some (Str []) \<and>
   \<not> truthy (Str []) \<and>
   (\<exists>order.
      post_handler MaterialOrder
          (order_payload (lit ''10'') (lit ''2.50'') (lit ''25.00'') @ [(''status'', Str [])])
          one_order_store =
        (respond 201
           (Obj [(''message'', Str ''Material Request created successfully''),
                 (''order'', Obj order)]),
         one_order_store @ [(fresh_id one_order_store, order)]) \<and>
      fld order ''status'' = Str ''Pending'')"
proof -
  let ?B = "order_payload (lit ''10'') (lit ''2.50'') (lit ''25.00'') @ [(''status'', Str [])]"
  have h1: "passes_required_check ?B"
    by code_simp
  have h2: "parseFloat (fld ?B ''quantity'') = Inr (parse_float ''10'')"
    by code_simp
  have h3: "parseFloat (fld ?B ''unitPrice'') = Inr (parse_float ''2.5'')"
    by code_simp
  have h4: "parseFloat (fld ?B ''totalPrice'') = Inr (parse_float ''25'')"
    by code_simp
  have h5: "\<not> isNaN (parse_float ''10'')" "\<not> isNaN (parse_float ''2.5'')"
           "\<not> isNaN (parse_float ''25'')"
    by code_simp+
  have h6: "num_strict_eq
              (parse_float (toFixed 2 (js_mul (parse_float ''10'') (parse_float ''2.5''))))
              (parse_float ''25'')"
    by code_simp
  have h7: "map_of ?B ''status'' = Some (Str [])"
    by (simp add: order_payload_def)
  have h8: "\<not> truthy (Str [])"
    by simp
  from create_falsy_status_is_Pending [OF h1 h2 h3 h4 h5 h6 h7 h8, of one_order_store]
  show ?thesis
    using h1 h7 h8 by blast
qed

section \<open>Delete\<close>

text \<open>
  Claim C8.  Deleting an existing identifier removes the record and responds 200 with
  exactly the message "Material order deleted successfully" (the body holds no record),
  after which get-by-id on the same identifier responds 404 with "Material order not
  found"; the other records stay.  Deleting an identifier that does not exist responds 404
  with "Material order not found" and leaves the store as it was.
\<close>

theorem delete_then_get_not_found:
  "(map_of s ident \<noteq> None \<longrightarrow>
      delete_handler MaterialOrder ident s =
        (respond 200 (message ''Material order deleted successfully''), AList.delete ident s) \<and>
      get_handler MaterialOrder ident (AList.delete ident s) =
        (respond 404 (message ''Material order not found''), AList.delete ident s) \<and>
      (\<forall>j. j \<noteq> ident \<longrightarrow> map_of (AList.delete ident s) j = map_of s j)) \<and>
   (map_of s ident = None \<longrightarrow>
      delete_handler MaterialOrder ident s =
        (respond 404 (message ''Material order not found''), s))"
proof (cases "map_of s ident")
  case None
  then show ?thesis
    by (simp add: delete_handler_def MaterialOrder_def mem_findByIdAndDelete_def)
next
  case (Some d)
  have gone: "map_of (AList.delete ident s) ident = None"
    by (simp add: delete_conv')
  have "delete_handler MaterialOrder ident s =
          (respond 200 (message ''Material order deleted successfully''), AList.delete ident s)"
    using Some by (simp add: delete_handler_def MaterialOrder_def mem_findByIdAndDelete_def)
  moreover have "get_handler MaterialOrder ident (AList.delete ident s) =
          (respond 404 (message ''Material order not found''), AList.delete ident s)"
    using gone by (simp add: get_handler_def MaterialOrder_def mem_findById_def)
  ultimately show ?thesis
    using Some by simp
qed

theorem delete_then_get_not_found_witness:
  "map_of one_order_store 7 \<noteq> None \<and> map_of one_order_store 8 = None \<and>
   delete_handler MaterialOrder 7 one_order_store =
     (respond 200 (message ''Material order deleted successfully''), []) \<and>
   get_handler MaterialOrder 7 (AList.delete 7 one_order_store) =
     (respond 404 (message ''Material order not found''), []) \<and>
   delete_handler MaterialOrder 8 one_order_store =
     (respond 404 (message ''Material order not found''), one_order_store)"
proof -
  have h7: "map_of one_order_store 7 \<noteq> None" and h8: "map_of one_order_store 8 = None"
    by (simp_all add: one_order_store_def)
  have d: "AList.delete 7 one_order_store = []"
    by (simp add: one_order_store_def AList.delete_eq)
  show ?thesis
    using h7 h8 d delete_then_get_not_found [of one_order_store 7]
      delete_then_get_not_found [of one_order_store 8]
    by simp
qed

section \<open>Update: partial updates\<close>

lemma fld_merge_absent:
  assumes "k \<notin> fst ` set updates"
  shows "fld (AList.merge d updates) k = fld d k"
proof -
  have "map_of updates k = None"
    using assms by (simp add: map_of_eq_None_iff)
  then show ?thesis
    by (simp add: fld_def merge_conv' map_add_def)
qed

lemma fld_merge_present:
  assumes "k \<in> fst ` set updates"
  shows "fld (AList.merge d updates) k = fld updates k"
proof -
  obtain v where "map_of updates k = Some v"
    using assms by (cases "map_of updates k") (simp_all add: map_of_eq_None_iff)
  then show ?thesis
    by (simp add: fld_def merge_conv' map_add_def)
qed

lemma put_handler_existing:
  assumes "put_validate body = Inr updates" "map_of s ident = Some d"
  shows "put_handler MaterialOrder ident body s =
           (respond 200
              (Obj [(''message'', Str ''Material request updated successfully''),
                    (''order'', Obj (AList.merge d updates))]),
            AList.update ident (AList.merge d updates) s)"
  using assms
  by (simp add: put_handler_def put_reply_def MaterialOrder_def mem_findByIdAndUpdate_def)

text \<open>
  Claim C7, as amended.  For an existing record and any update payload, every field
  absent from the payload has the same value in the stored record after the request, and
  no other record changes.  When the payload passes the handler's own validation (no
  \<open>parseFloat\<close> throws and the total-price recheck does not reject it), update responds 200
  with the post-update record; otherwise it responds with the early 400 or 500 and the
  store is not changed at all.
\<close>

theorem update_keeps_absent_fields:
  assumes "map_of s ident = Some d"
  shows "\<exists>d'.
     map_of (snd (put_handler MaterialOrder ident body s)) ident = Some d' \<and>
     (\<forall>k. k \<notin> fst ` set body \<longrightarrow> fld d' k = fld d k) \<and>
     (\<forall>j. j \<noteq> ident \<longrightarrow> map_of (snd (put_handler MaterialOrder ident body s)) j = map_of s j) \<and>
     (case put_validate body of
        Inr updates \<Rightarrow>
          fst (put_handler MaterialOrder ident body s) =
            respond 200
              (Obj [(''message'', Str ''Material request updated successfully''),
                    (''order'', Obj d')])
      | Inl early \<Rightarrow>
          put_handler MaterialOrder ident body s = (early, s) \<and>
          (status_code early = 400 \<or> status_code early = 500))"
proof (cases "put_validate body")
  case (Inl early)
  have "status_code early = 400 \<or> status_code early = 500"
    using Inl unfolding put_validate_def Let_def
    by (auto split: sum.splits if_splits simp: respond_def)
  moreover have "put_handler MaterialOrder ident body s = (early, s)"
    using Inl by (simp add: put_handler_def)
  ultimately show ?thesis
    using assms Inl by (intro exI [of _ d]) simp
next
  case (Inr updates)
  let ?d' = "AList.merge d updates"
  have r: "put_handler MaterialOrder ident body s =
           (respond 200
              (Obj [(''message'', Str ''Material request updated successfully''),
                    (''order'', Obj ?d')]),
            AList.update ident ?d' s)"
    using Inr assms by (rule put_handler_existing)
  have keys: "fst ` set updates = fst ` set body"
    using Inr by (rule put_validate_keys)
  have frame: "\<forall>k. k \<notin> fst ` set body \<longrightarrow> fld ?d' k = fld d k"
    using keys by (simp add: fld_merge_absent)
  show ?thesis
    using r frame Inr by (intro exI [of _ ?d']) (simp add: update_conv')
qed

theorem update_keeps_absent_fields_witness:
  "map_of one_order_store 7 = Some stored_order \<and>
   put_handler MaterialOrder 7 [(''status'', Str ''Shipped'')] one_order_store =
     (respond 200
        (Obj [(''message'', Str ''Material request updated successfully''),
              (''order'', Obj (AList.update ''status'' (Str ''Shipped'') stored_order))]),
      [(7, AList.update ''status'' (Str ''Shipped'') stored_order)]) \<and>
   (\<exists>d'. map_of (snd (put_handler MaterialOrder 7 [(''status'', Str ''Shipped'')] one_order_store)) 7
            = Some d' \<and>
         (\<forall>k. k \<notin> fst ` set [(''status'', Str ''Shipped'')] \<longrightarrow> fld d' k = fld stored_order k))"
proof -
  have h: "map_of one_order_store 7 = Some stored_order"
    by (simp add: one_order_store_def)
  have e: "put_handler MaterialOrder 7 [(''status'', Str ''Shipped'')] one_order_store =
     (respond 200
        (Obj [(''message'', Str ''Material request updated successfully''),
              (''order'', Obj (AList.update ''status'' (Str ''Shipped'') stored_order))]),
      [(7, AList.update ''status'' (Str ''Shipped'') stored_order)])"
    by code_simp
  from update_keeps_absent_fields [OF h, of "[(''status'', Str ''Shipped'')]"]
  have "\<exists>d'. map_of (snd (put_handler MaterialOrder 7 [(''status'', Str ''Shipped'')] one_order_store)) 7
            = Some d' \<and>
         (\<forall>k. k \<notin> fst ` set [(''status'', Str ''Shipped'')] \<longrightarrow> fld d' k = fld stored_order k)"
    by blast
  with h e show ?thesis
    by blast
qed

text \<open>
  The claim as stated promises 200 for every payload that holds a subset of the fields.
  A payload with a new status and three numeric fields whose total is wrong is answered
  400, and the stored record keeps its old status.
\<close>

theorem update_subset_counterexample:
  "map_of one_order_store 7 = Some stored_order \<and>
   put_handler MaterialOrder 7
       [(''status'', Str ''Shipped''), (''quantity'', lit ''4''), (''unitPrice'', lit ''2.5''),
        (''totalPrice'', lit ''11'')]
       one_order_store =
     (respond 400 (message ''Error in Total Price: Your total price is incorrect.''),
      one_order_store) \<and>
   status_code (fst (put_handler MaterialOrder 7
       [(''status'', Str ''Shipped''), (''quantity'', lit ''4''), (''unitPrice'', lit ''2.5''),
        (''totalPrice'', lit ''11'')]
       one_order_store)) \<noteq> 200"
  by code_simp

section \<open>Update: values that are not checked\<close>

lemma put_stages_exist:
  assumes "\<forall>k \<in> {''quantity'', ''unitPrice'', ''totalPrice''}.
             truthy (fld body k) \<longrightarrow> (\<exists>n. parseFloat (fld body k) = Inr n)"
  shows "\<exists>u1 u2 u3. parse_in_place ''quantity'' body = Inr u1 \<and>
                    parse_in_place ''unitPrice'' u1 = Inr u2 \<and>
                    parse_in_place ''totalPrice'' u2 = Inr u3"
proof -
  have q: "truthy (fld body ''quantity'') \<longrightarrow> (\<exists>n. parseFloat (fld body ''quantity'') = Inr n)"
    and u: "truthy (fld body ''unitPrice'') \<longrightarrow> (\<exists>n. parseFloat (fld body ''unitPrice'') = Inr n)"
    and t: "truthy (fld body ''totalPrice'') \<longrightarrow> (\<exists>n. parseFloat (fld body ''totalPrice'') = Inr n)"
    using assms by simp_all
  obtain u1 where p1: "parse_in_place ''quantity'' body = Inr u1"
    using q by (cases "parse_in_place ''quantity'' body") (auto simp: parse_in_place_Inl)
  have "fld u1 ''unitPrice'' = fld body ''unitPrice''"
    using parse_in_place_other [OF p1, of "''unitPrice''"] by simp
  then obtain u2 where p2: "parse_in_place ''unitPrice'' u1 = Inr u2"
    using u by (cases "parse_in_place ''unitPrice'' u1") (auto simp: parse_in_place_Inl)
  have "fld u2 ''totalPrice'' = fld body ''totalPrice''"
    using parse_in_place_other [OF p2, of "''totalPrice''"]
          parse_in_place_other [OF p1, of "''totalPrice''"] by simp
  then obtain u3 where p3: "parse_in_place ''totalPrice'' u2 = Inr u3"
    using t by (cases "parse_in_place ''totalPrice'' u2") (auto simp: parse_in_place_Inl)
  from p1 p2 p3 show ?thesis
    by blast
qed

lemma put_stages_parsed:
  assumes "parse_in_place ''quantity'' body = Inr u1"
    and "parse_in_place ''unitPrice'' u1 = Inr u2"
    and "parse_in_place ''totalPrice'' u2 = Inr u3"
    and "k \<in> {''quantity'', ''unitPrice'', ''totalPrice''}"
    and "truthy (fld body k)" "parseFloat (fld body k) = Inr n"
  shows "fld u3 k = Num n"
  using assms by (auto simp: parse_in_place_Inr fld_update)

lemma put_stages_falsy:
  assumes "parse_in_place ''quantity'' body = Inr u1"
    and "parse_in_place ''unitPrice'' u1 = Inr u2"
    and "parse_in_place ''totalPrice'' u2 = Inr u3"
    and "k \<in> {''quantity'', ''unitPrice'', ''totalPrice''}"
    and "\<not> truthy (fld body k)"
  shows "fld u3 k = fld body k"
  using assms by (auto simp: parse_in_place_Inr fld_update)

lemma put_validate_falsy_operand:
  assumes "parse_in_place ''quantity'' body = Inr u1"
    and "parse_in_place ''unitPrice'' u1 = Inr u2"
    and "parse_in_place ''totalPrice'' u2 = Inr u3"
    and "\<not> truthy (fld u3 ''quantity'') \<or> \<not> truthy (fld u3 ''unitPrice'') \<or>
         \<not> truthy (fld u3 ''totalPrice'')"
  shows "put_validate body = Inr u3"
  using assms by (auto simp: put_validate_def Let_def)

text \<open>
  Claim C6, as amended.  Let an update payload hold, as \<open>quantity\<close>, \<open>unitPrice\<close> or
  \<open>totalPrice\<close>, a non-empty string that \<open>parseFloat\<close> reads as NaN, and let no \<open>parseFloat\<close>
  call of the handler throw.  Then the handler makes no NaN check: the \<open>updates\<close> object it
  hands to \<open>findByIdAndUpdate\<close> holds NaN in that field, its response is whatever follows
  from the storage call and never a 400, and for an existing record the field is stored as
  NaN with a 200 response.
\<close>

theorem update_forwards_NaN:
  assumes "k \<in> {''quantity'', ''unitPrice'', ''totalPrice''}"
    and "fld body k = Str str" "str \<noteq> []" "parse_float str = NaN"
    and "\<forall>k' \<in> {''quantity'', ''unitPrice'', ''totalPrice''}.
           truthy (fld body k') \<longrightarrow> (\<exists>n. parseFloat (fld body k') = Inr n)"
  shows "\<exists>updates.
     fld updates k = Num NaN \<and>
     put_handler db ident body s = put_reply (findByIdAndUpdate db ident updates s) \<and>
     status_code (fst (put_handler db ident body s)) \<noteq> 400 \<and>
     (\<forall>d. map_of st i = Some d \<longrightarrow>
        (\<exists>d'. put_handler MaterialOrder i body st =
                (respond 200
                   (Obj [(''message'', Str ''Material request updated successfully''),
                         (''order'', Obj d')]),
                 AList.update i d' st) \<and>
              fld d' k = Num NaN))"
proof -
  from put_stages_exist [OF assms(5)] obtain u1 u2 u3 where
    p: "parse_in_place ''quantity'' body = Inr u1"
       "parse_in_place ''unitPrice'' u1 = Inr u2"
       "parse_in_place ''totalPrice'' u2 = Inr u3"
    by blast
  have tr: "truthy (fld body k)"
    using assms(2,3) by simp
  have "parseFloat (fld body k) = Inr NaN"
    using assms(2,4) by (simp add: parseFloat_def)
  with p assms(1) tr have nan: "fld u3 k = Num NaN"
    by (rule put_stages_parsed)
  then have "\<not> truthy (fld u3 k)"
    by simp
  then have "\<not> truthy (fld u3 ''quantity'') \<or> \<not> truthy (fld u3 ''unitPrice'') \<or>
             \<not> truthy (fld u3 ''totalPrice'')"
    using assms(1) by auto
  with p have v: "put_validate body = Inr u3"
    by (rule put_validate_falsy_operand)
  then have fwd: "put_handler db ident body s = put_reply (findByIdAndUpdate db ident u3 s)"
    by (simp add: put_handler_def)
  then have no400: "status_code (fst (put_handler db ident body s)) \<noteq> 400"
    by (simp add: put_reply_status)
  have "k \<in> fst ` set body"
    using tr by (rule truthy_fld_key)
  then have "k \<in> fst ` set u3"
    using put_validate_keys [OF v] by simp
  then have merged: "fld (AList.merge d u3) k = Num NaN" for d
    using nan by (simp add: fld_merge_present)
  have stored: "\<forall>d. map_of st i = Some d \<longrightarrow>
        (\<exists>d'. put_handler MaterialOrder i body st =
                (respond 200
                   (Obj [(''message'', Str ''Material request updated successfully''),
                         (''order'', Obj d')]),
                 AList.update i d' st) \<and>
              fld d' k = Num NaN)"
    using put_handler_existing [OF v] merged by blast
  show ?thesis
    using nan fwd no400 stored by (intro exI [of _ u3] conjI) assumption+
qed

theorem update_forwards_NaN_witness:
  "''quantity'' \<in> {''quantity'', ''unitPrice'', ''totalPrice''} \<and>
   fld [(''quantity'', Str ''abc'')] ''quantity'' = Str ''abc'' \<and> ''abc'' \<noteq> [] \<and>
   parse_float ''abc'' = NaN \<and>
   parseFloat (fld [(''quantity'', Str ''abc'')] ''quantity'') = Inr NaN \<and>
   \<not> truthy (fld [(''quantity'', Str ''abc'')] ''unitPrice'') \<and>
   \<not> truthy (fld [(''quantity'', Str ''abc'')] ''totalPrice'') \<and>
   map_of one_order_store 7 = Some stored_order \<and>
   (\<exists>d'. put_handler MaterialOrder 7 [(''quantity'', Str ''abc'')] one_order_store =
            (respond 200
               (Obj [(''message'', Str ''Material request updated successfully''),
                     (''order'', Obj d')]),
             AList.update 7 d' one_order_store) \<and>
          fld d' ''quantity'' = Num NaN)"
proof -
  let ?B = "[(''quantity'', Str ''abc'')]"
  have h1: "''quantity'' \<in> {''quantity'', ''unitPrice'', ''totalPrice''}"
    by simp
  have h2: "fld ?B ''quantity'' = Str ''abc''"
    by (simp add: fld_def)
  have h3: "''abc'' \<noteq> []"
    by simp
  have h4: "parse_float ''abc'' = NaN"
    by code_simp
  have h5: "\<forall>k' \<in> {''quantity'', ''unitPrice'', ''totalPrice''}.
       truthy (fld ?B k') \<longrightarrow> (\<exists>n. parseFloat (fld ?B k') = Inr n)"
    by (simp add: fld_def parseFloat_def)
  have h6: "map_of one_order_store 7 = Some stored_order"
    by (simp add: one_order_store_def)
  from update_forwards_NaN
         [OF h1 h2 h3 h4 h5, where db = MaterialOrder and ident = 7 and s = one_order_store
            and st = one_order_store and i = 7]
  obtain updates where
    "\<forall>d. map_of one_order_store 7 = Some d \<longrightarrow>
        (\<exists>d'. put_handler MaterialOrder 7 ?B one_order_store =
                (respond 200
                   (Obj [(''message'', Str ''Material request updated successfully''),
                         (''order'', Obj d')]),
                 AList.update 7 d' one_order_store) \<and>
              fld d' ''quantity'' = Num NaN)"
    by blast
  with h6
  have "\<exists>d'. put_handler MaterialOrder 7 ?B one_order_store =
            (respond 200
               (Obj [(''message'', Str ''Material request updated successfully''),
                     (''order'', Obj d')]),
             AList.update 7 d' one_order_store) \<and>
          fld d' ''quantity'' = Num NaN"
    by blast
  moreover have "parseFloat (fld ?B ''quantity'') = Inr NaN"
    using h4 by (simp add: fld_def parseFloat_def)
  moreover have "\<not> truthy (fld ?B ''unitPrice'')" "\<not> truthy (fld ?B ''totalPrice'')"
    by (simp_all add: fld_def)
  ultimately show ?thesis
    using h1 h2 h3 h4 h6 by (intro conjI) assumption+
qed

text \<open>
  The claim as stated fails where another numeric field makes \<open>parseFloat\<close> throw: the
  quantity \<open>"abc"\<close> is parsed to NaN, the unit price is an object with an own property
  \<open>toString\<close>, the second \<open>parseFloat\<close> call throws, and the handler answers 500 without
  calling the storage; the stored quantity is still 10.
\<close>

theorem update_NaN_counterexample:
  "fld [(''quantity'', Str ''abc''), (''unitPrice'', Obj [(''toString'', lit ''1'')])] ''quantity'' =
     Str ''abc'' \<and>
   parse_float ''abc'' = NaN \<and>
   put_handler MaterialOrder 7
       [(''quantity'', Str ''abc''), (''unitPrice'', Obj [(''toString'', lit ''1'')])]
       one_order_store =
     (respond 500 (message ''Server error. Please try again later.''), one_order_store) \<and>
   map_of one_order_store 7 = Some stored_order \<and>
   fld stored_order ''quantity'' = lit ''10''"
  by code_simp

text \<open>
  Claim C9, as amended.  When \<open>quantity\<close> or \<open>unitPrice\<close> of an update payload is falsy (the
  number 0, for one) and no \<open>parseFloat\<close> call of the handler throws, the falsy field is
  handed to the storage as it came, unparsed, the total-price recheck does not run, and the
  response is never a 400; for an existing record the update is stored and answered 200,
  whatever the totals are.
\<close>

theorem update_falsy_operand_skips_check:
  assumes "\<not> truthy (fld body ''quantity'') \<or> \<not> truthy (fld body ''unitPrice'')"
    and "\<forall>k' \<in> {''quantity'', ''unitPrice'', ''totalPrice''}.
           truthy (fld body k') \<longrightarrow> (\<exists>n. parseFloat (fld body k') = Inr n)"
  shows "\<exists>updates.
     (\<not> truthy (fld body ''quantity'') \<longrightarrow> fld updates ''quantity'' = fld body ''quantity'') \<and>
     (\<not> truthy (fld body ''unitPrice'') \<longrightarrow> fld updates ''unitPrice'' = fld body ''unitPrice'') \<and>
     put_handler db ident body s = put_reply (findByIdAndUpdate db ident updates s) \<and>
     status_code (fst (put_handler db ident body s)) \<noteq> 400 \<and>
     (\<forall>d. map_of st i = Some d \<longrightarrow>
        put_handler MaterialOrder i body st =
          (respond 200
             (Obj [(''message'', Str ''Material request updated successfully''),
                   (''order'', Obj (AList.merge d updates))]),
           AList.update i (AList.merge d updates) st))"
proof -
  from put_stages_exist [OF assms(2)] obtain u1 u2 u3 where
    p: "parse_in_place ''quantity'' body = Inr u1"
       "parse_in_place ''unitPrice'' u1 = Inr u2"
       "parse_in_place ''totalPrice'' u2 = Inr u3"
    by blast
  have fq: "\<not> truthy (fld body ''quantity'') \<longrightarrow> fld u3 ''quantity'' = fld body ''quantity''"
    using put_stages_falsy [OF p, of "''quantity''"] by simp
  have fu: "\<not> truthy (fld body ''unitPrice'') \<longrightarrow> fld u3 ''unitPrice'' = fld body ''unitPrice''"
    using put_stages_falsy [OF p, of "''unitPrice''"] by simp
  have "\<not> truthy (fld u3 ''quantity'') \<or> \<not> truthy (fld u3 ''unitPrice'') \<or>
        \<not> truthy (fld u3 ''totalPrice'')"
    using assms(1) fq fu by auto
  with p have v: "put_validate body = Inr u3"
    by (rule put_validate_falsy_operand)
  then have fwd: "put_handler db ident body s = put_reply (findByIdAndUpdate db ident u3 s)"
    by (simp add: put_handler_def)
  then have no400: "status_code (fst (put_handler db ident body s)) \<noteq> 400"
    by (simp add: put_reply_status)
  have stored: "\<forall>d. map_of st i = Some d \<longrightarrow>
        put_handler MaterialOrder i body st =
          (respond 200
             (Obj [(''message'', Str ''Material request updated successfully''),
                   (''order'', Obj (AList.merge d u3))]),
           AList.update i (AList.merge d u3) st)"
    using put_handler_existing [OF v] by blast
  show ?thesis
    using fq fu fwd no400 stored by (intro exI [of _ u3] conjI) assumption+
qed

theorem update_falsy_operand_skips_check_witness:
  "\<not> truthy (fld [(''quantity'', lit ''0''), (''unitPrice'', lit ''4''), (''totalPrice'', lit ''99'')]
       ''quantity'') \<and>
   truthy (fld [(''quantity'', lit ''0''), (''unitPrice'', lit ''4''), (''totalPrice'', lit ''99'')]
     ''unitPrice'') \<and>
   truthy (fld [(''quantity'', lit ''0''), (''unitPrice'', lit ''4''), (''totalPrice'', lit ''99'')]
     ''totalPrice'') \<and>
   parseFloat (fld [(''quantity'', lit ''0''), (''unitPrice'', lit ''4''), (''totalPrice'', lit ''99'')]
     ''unitPrice'') = Inr (parse_float ''4'') \<and>
   parseFloat (fld [(''quantity'', lit ''0''), (''unitPrice'', lit ''4''), (''totalPrice'', lit ''99'')]
     ''totalPrice'') = Inr (parse_float ''99'') \<and>
   status_code (fst (put_handler MaterialOrder 7
       [(''quantity'', lit ''0''), (''unitPrice'', lit ''4''), (''totalPrice'', lit ''99'')]
       one_order_store)) = 200 \<and>
   \<not> num_strict_eq (parse_float (toFixed 2 (js_mul (parse_float ''0'') (parse_float ''4''))))
       (parse_float ''99'')"
proof -
  let ?B = "[(''quantity'', lit ''0''), (''unitPrice'', lit ''4''), (''totalPrice'', lit ''99'')]"
  have h1: "\<not> truthy (fld ?B ''quantity'')"
    by code_simp
  have h2: "\<forall>k' \<in> {''quantity'', ''unitPrice'', ''totalPrice''}.
       truthy (fld ?B k') \<longrightarrow> (\<exists>n. parseFloat (fld ?B k') = Inr n)"
    by (simp add: fld_def parseFloat_def lit_def)
  have h3: "map_of one_order_store 7 = Some stored_order"
    by (simp add: one_order_store_def)
  have h4: "\<not> num_strict_eq (parse_float (toFixed 2 (js_mul (parse_float ''0'') (parse_float ''4''))))
       (parse_float ''99'')"
    by code_simp
  from update_falsy_operand_skips_check
         [of ?B, OF disjI1 [OF h1] h2, where db = MaterialOrder and ident = 7
            and s = one_order_store and st = one_order_store and i = 7]
  obtain updates where
    "\<forall>d. map_of one_order_store 7 = Some d \<longrightarrow>
        put_handler MaterialOrder 7 ?B one_order_store =
          (respond 200
             (Obj [(''message'', Str ''Material request updated successfully''),
                   (''order'', Obj (AList.merge d updates))]),
           AList.update 7 (AList.merge d updates) one_order_store)"
    by blast
  with h3
  have "put_handler MaterialOrder 7 ?B one_order_store =
          (respond 200
             (Obj [(''message'', Str ''Material request updated successfully''),
                   (''order'', Obj (AList.merge stored_order updates))]),
           AList.update 7 (AList.merge stored_order updates) one_order_store)"
    by blast
  then have "status_code (fst (put_handler MaterialOrder 7 ?B one_order_store)) = 200"
    by (simp add: respond_def)
  moreover have "truthy (fld ?B ''unitPrice'')" "truthy (fld ?B ''totalPrice'')"
    by code_simp+
  moreover have "parseFloat (fld ?B ''unitPrice'') = Inr (parse_float ''4'')"
    "parseFloat (fld ?B ''totalPrice'') = Inr (parse_float ''99'')"
    by code_simp+
  ultimately show ?thesis
    using h1 h4 by (intro conjI) assumption+
qed

text \<open>
  The claim as stated promises 200 for every truthy unit price and total price.  A unit
  price that is an object with an own property \<open>toString\<close> is truthy, \<open>parseFloat\<close> throws on
  it, and the update is answered 500.
\<close>

theorem update_falsy_operand_counterexample:
  "\<not> truthy (fld [(''quantity'', lit ''0''), (''unitPrice'', Obj [(''toString'', lit ''1'')]),
                  (''totalPrice'', lit ''99'')] ''quantity'') \<and>
   truthy (fld [(''quantity'', lit ''0''), (''unitPrice'', Obj [(''toString'', lit ''1'')]),
                (''totalPrice'', lit ''99'')] ''unitPrice'') \<and>
   truthy (fld [(''quantity'', lit ''0''), (''unitPrice'', Obj [(''toString'', lit ''1'')]),
                (''totalPrice'', lit ''99'')] ''totalPrice'') \<and>
   map_of one_order_store 7 = Some stored_order \<and>
   put_handler MaterialOrder 7
       [(''quantity'', lit ''0''), (''unitPrice'', Obj [(''toString'', lit ''1'')]),
        (''totalPrice'', lit ''99'')]
       one_order_store =
     (respond 500 (message ''Server error. Please try again later.''), one_order_store)"
  by code_simp

end
